theory Spec2Isabelle
  imports Main
begin

section \<open>Strings\<close>

text \<open>
  \<^verbatim>\<open>strings.Split(id, ":")\<close> with the one-character separator the handlers use:
  a string holding \<open>n\<close> separators splits into \<open>n + 1\<close> parts (so the empty
  string gives one empty part).
\<close>

fun Split :: "string \<Rightarrow> char \<Rightarrow> string list" where
  "Split [] sep = [[]]"
| "Split (x # xs) sep =
     (if x = sep then [] # Split xs sep
      else (case Split xs sep of
              [] \<Rightarrow> [[x]]
            | p # ps \<Rightarrow> (x # p) # ps))"

text \<open>\<^verbatim>\<open>strings.HasPrefix\<close> and \<^verbatim>\<open>strings.Contains\<close>.\<close>

fun HasPrefix :: "string \<Rightarrow> string \<Rightarrow> bool" where
  "HasPrefix s [] = True"
| "HasPrefix [] (p # ps) = False"
| "HasPrefix (x # xs) (p # ps) = (x = p \<and> HasPrefix xs ps)"

fun Contains :: "string \<Rightarrow> string \<Rightarrow> bool" where
  "Contains [] sub = (sub = [])"
| "Contains (x # xs) sub = (HasPrefix (x # xs) sub \<or> Contains xs sub)"

section \<open>Errors and diagnostics\<close>

text \<open>
  The Go \<^verbatim>\<open>error\<close> values the handlers see: an AWS error with its code and
  message, the plugin SDK's \<^verbatim>\<open>retry.TimeoutError\<close> (last error, last state),
  \<^verbatim>\<open>retry.UnexpectedStateError\<close> (the state), \<^verbatim>\<open>retry.NotFoundError\<close>,
  and an error made by \<^verbatim>\<open>fmt.Errorf\<close> (its text). A \<^verbatim>\<open>nil\<close> error is
  \<open>None\<close> of \<open>goerr option\<close>.
\<close>

datatype goerr =
    AwsErr string string
  | TimeoutError "goerr option" string
  | UnexpectedStateError string
  | NotFoundError
  | Errorf string

text \<open>\<^verbatim>\<open>tfawserr.ErrMessageContains\<close> and \<^verbatim>\<open>tfawserr.ErrCodeEquals\<close>.\<close>

fun ErrMessageContains :: "goerr option \<Rightarrow> string \<Rightarrow> string \<Rightarrow> bool" where
  "ErrMessageContains (Some (AwsErr c m)) code message = (c = code \<and> Contains m message)"
| "ErrMessageContains _ code message = False"


text \<open>
  \<^verbatim>\<open>tfresource.NotFound\<close> and \<^verbatim>\<open>tfresource.TimedOut\<close> are helpers of the
  provider that recognise the plugin SDK's error types: a \<^verbatim>\<open>retry.NotFoundError\<close>,
  and a \<^verbatim>\<open>retry.TimeoutError\<close> that carries no last error.
\<close>

fun NotFound :: "goerr option \<Rightarrow> bool" where
  "NotFound (Some NotFoundError) = True"
| "NotFound _ = False"

fun TimedOut :: "goerr option \<Rightarrow> bool" where
  "TimedOut (Some (TimeoutError None st)) = True"
| "TimedOut _ = False"

text \<open>
  A diagnostic of severity error: the rendered text in front of the final \<^verbatim>\<open>%s\<close> of
  the format, and the error that \<^verbatim>\<open>%s\<close> prints (\<open>None\<close> when the format has no
  error argument). \<^verbatim>\<open>sdkdiag.AppendErrorf\<close> appends one.
\<close>

datatype diagnostic = ErrorDiag string "goerr option"

definition AppendErrorf :: "diagnostic list \<Rightarrow> string \<Rightarrow> goerr \<Rightarrow> diagnostic list" where
  "AppendErrorf diags summary err = diags @ [ErrorDiag summary (Some err)]"

text \<open>A handler returns its diagnostics, or the Go runtime panics inside it.\<close>

datatype outcome = Returned "diagnostic list" | Panicked

section \<open>The composite identifier of a threat intel set\<close>

definition DecodeThreatIntelSetID :: "string \<Rightarrow> goerr + (string \<times> string)" where
  "DecodeThreatIntelSetID ident =
     (let parts = Split ident (CHR '':'') in
      if length parts \<noteq> 2
      then Inl (Errorf (''GuardDuty ThreatIntelSet ID must be of the form <Detector ID>:<ThreatIntelSet ID>, was provided: '' @ ident))
      else Inr (parts ! 1, parts ! 0))"

section \<open>The key/value state store of a resource\<close>

text \<open>
  \<^verbatim>\<open>schema.ResourceData\<close>: the identifier, the new-resource mark, the attribute
  values the handler reads with \<^verbatim>\<open>d.Get\<close> and writes with \<^verbatim>\<open>d.Set\<close>, and the
  values of the prior state, against which \<^verbatim>\<open>d.HasChange\<close> compares. The schema
  gives every attribute its type, so the type assertions of the handlers
  (\<^verbatim>\<open>d.Get("name").(string)\<close>) cannot fail on a stored value; the projections below
  are total and answer the zero value elsewhere.
\<close>

type_synonym tags = "string \<rightharpoonup> string"

datatype val =
    VStr string
  | VBool bool
  | VInt int
  | VSet "string set"
  | VTags tags

record ResourceData =
  Id :: string
  IsNewResource :: bool
  attrs :: "string \<Rightarrow> val"
  prior :: "string \<Rightarrow> val"

fun str_of :: "val \<Rightarrow> string" where
  "str_of (VStr s) = s"
| "str_of _ = []"

fun bool_of :: "val \<Rightarrow> bool" where
  "bool_of (VBool b) = b"
| "bool_of _ = False"

fun int_of :: "val \<Rightarrow> int" where
  "int_of (VInt i) = i"
| "int_of _ = 0"

fun set_of :: "val \<Rightarrow> string set" where
  "set_of (VSet S) = S"
| "set_of _ = {}"

fun tags_of :: "val \<Rightarrow> tags" where
  "tags_of (VTags m) = m"
| "tags_of _ = Map.empty"

text \<open>\<^verbatim>\<open>d.GetOk\<close> answers \<^verbatim>\<open>ok = false\<close> on the zero value of the type.\<close>

fun is_zero :: "val \<Rightarrow> bool" where
  "is_zero (VStr s) = (s = [])"
| "is_zero (VBool b) = (\<not> b)"
| "is_zero (VInt i) = (i = 0)"
| "is_zero (VSet S) = (S = {})"
| "is_zero (VTags m) = (m = Map.empty)"

definition Get :: "ResourceData \<Rightarrow> string \<Rightarrow> val" where
  "Get d k = attrs d k"

definition GetOk :: "ResourceData \<Rightarrow> string \<Rightarrow> val \<times> bool" where
  "GetOk d k = (attrs d k, \<not> is_zero (attrs d k))"

definition Set :: "ResourceData \<Rightarrow> string \<Rightarrow> val \<Rightarrow> ResourceData" where
  "Set d k v = d\<lparr>attrs := (attrs d)(k := v)\<rparr>"

definition SetId :: "ResourceData \<Rightarrow> string \<Rightarrow> ResourceData" where
  "SetId d i = d\<lparr>Id := i\<rparr>"

definition HasChange :: "ResourceData \<Rightarrow> string \<Rightarrow> bool" where
  "HasChange d k = (prior d k \<noteq> attrs d k)"

definition HasChanges :: "ResourceData \<Rightarrow> string list \<Rightarrow> bool" where
  "HasChanges d ks = list_ex (HasChange d) ks"

text \<open>
  \<^verbatim>\<open>d.HasChangesExcept\<close> looks at every attribute of the resource's schema but the
  named ones; the schema's attribute names are its first argument here.
\<close>

definition HasChangesExcept :: "string list \<Rightarrow> ResourceData \<Rightarrow> string list \<Rightarrow> bool" where
  "HasChangesExcept schema_keys d ks =
     list_ex (HasChange d) (filter (\<lambda>k. k \<notin> set ks) schema_keys)"

definition GetChange :: "ResourceData \<Rightarrow> string \<Rightarrow> val \<times> val" where
  "GetChange d k = (prior d k, attrs d k)"

text \<open>\<^verbatim>\<open>aws.StringValue\<close>, \<^verbatim>\<open>aws.BoolValue\<close>, \<^verbatim>\<open>aws.Int64Value\<close>: a nil pointer
  reads as the zero value. \<^verbatim>\<open>d.Set\<close> stores a nil pointer as the zero value too.\<close>

definition StringValue :: "string option \<Rightarrow> string" where
  "StringValue p = (case p of None \<Rightarrow> [] | Some s \<Rightarrow> s)"

definition BoolValue :: "bool option \<Rightarrow> bool" where
  "BoolValue p = (case p of None \<Rightarrow> False | Some b \<Rightarrow> b)"

definition Int64Value :: "int option \<Rightarrow> int" where
  "Int64Value p = (case p of None \<Rightarrow> 0 | Some i \<Rightarrow> i)"

section \<open>The provider client and its tag helpers\<close>

text \<open>
  \<^verbatim>\<open>conns.AWSClient\<close>: the default tags of the provider, the partition, region and
  account. The helpers \<^verbatim>\<open>IgnoreAWS\<close> and \<^verbatim>\<open>IgnoreConfig(ignoreTagsConfig)\<close> of the
  provider's tags package are not among the sources; each is a parameter here, a function
  on tag maps carried by the client record. The conversions between a tag map and the
  service's own tag representation (\<^verbatim>\<open>Tags\<close>, \<^verbatim>\<open>KeyValueTags\<close>, \<^verbatim>\<open>Map\<close>) carry
  the same entries and are the identity on tag maps.
\<close>

record AWSClient =
  DefaultTagsConfig :: tags
  IgnoreAWS :: "tags \<Rightarrow> tags"
  IgnoreConfig :: "tags \<Rightarrow> tags"
  Partition :: string
  Region :: string
  AccountID :: string

text \<open>
  Modelled from the spec: \<^verbatim>\<open>MergeTags\<close> and \<^verbatim>\<open>RemoveDefaultConfig\<close> of the
  provider's tags package are not among the sources. The spec has the merged set be a
  superset of the user-supplied tags (the resource's own tags win over the defaults), and
  has the read remove the default-injected tags (the entries the provider's default tags
  hold with the same key and value) from the full set to get the user-facing set.
\<close>

definition MergeTags :: "tags \<Rightarrow> tags \<Rightarrow> tags" where
  "MergeTags dc t = dc ++ t"

definition RemoveDefaultConfig :: "tags \<Rightarrow> tags \<Rightarrow> tags" where
  "RemoveDefaultConfig dc t = (\<lambda>k. if dc k = t k then None else t k)"

text \<open>\<^verbatim>\<open>arn.ARN{...}.String()\<close>.\<close>

definition ARN_String :: "string \<Rightarrow> string \<Rightarrow> string \<Rightarrow> string \<Rightarrow> string \<Rightarrow> string" where
  "ARN_String part service reg account resource =
     ''arn:'' @ part @ '':'' @ service @ '':'' @ reg @ '':'' @ account @ '':'' @ resource"

section \<open>Waiting for a state, and retrying\<close>

text \<open>
  The plugin SDK's \<^verbatim>\<open>retry.StateChangeConf.WaitForStateContext\<close>, on a discrete
  clock in milliseconds on which only the sleeps between two refreshes take time. The
  first refresh runs at once; the sleep before the next one starts at 100 ms, doubles
  after every refresh, and is raised to \<^verbatim>\<open>MinTimeout\<close> and cut at 10 s. A refresh
  that would start at or after \<^verbatim>\<open>Timeout\<close> does not run: the wait ends in a
  \<^verbatim>\<open>TimeoutError\<close> holding the last state seen. A refresh answers an error (which ends
  the wait), or a state with a result that is not nil (both refresh functions of the
  handlers do), or it panics. The state \<open>'s\<close> is whatever the refresh closure changes.
\<close>

record StateChangeConf =
  Pending :: "string list"
  Target :: "string list"
  Timeout :: nat
  MinTimeout :: nat

datatype refresh_result = RefreshState string | RefreshError goerr | RefreshPanic

datatype wait_result = WaitDone | WaitError goerr | WaitPanic

definition next_wait :: "nat \<Rightarrow> nat \<Rightarrow> nat" where
  "next_wait min_timeout wait =
     (let w = 2 * (if wait = 0 then 100 else wait) in
      if w < min_timeout then min_timeout
      else if w > 10000 then 10000
      else w)"

lemma next_wait_pos: "0 < next_wait m w"
  by (simp add: next_wait_def Let_def)

function wait_loop ::
  "StateChangeConf \<Rightarrow> ('s \<Rightarrow> refresh_result \<times> 's) \<Rightarrow> nat \<Rightarrow> nat \<Rightarrow> string \<Rightarrow> 's \<Rightarrow> wait_result \<times> 's" where
  "wait_loop conf refresh elapsed wait last_state s =
     (if Timeout conf \<le> elapsed + wait then (WaitError (TimeoutError None last_state), s)
      else (case refresh s of
              (RefreshPanic, s') \<Rightarrow> (WaitPanic, s')
            | (RefreshError e, s') \<Rightarrow> (WaitError e, s')
            | (RefreshState st, s') \<Rightarrow>
                if st \<in> set (Target conf) then (WaitDone, s')
                else if st \<in> set (Pending conf) \<or> Pending conf = []
                then wait_loop conf refresh (elapsed + wait) (next_wait (MinTimeout conf) wait) st s'
                else (WaitError (UnexpectedStateError st), s')))"
  by pat_completeness auto

termination
proof (relation "measure (\<lambda>(conf, refresh, elapsed, wait, last_state, s).
                   2 * (Timeout conf - elapsed) + (if wait = 0 then 1 else 0))", goal_cases)
  case 1
  show ?case by simp
next
  case (2 conf refresh elapsed wait last_state s x s' st)
  have "0 < next_wait (MinTimeout conf) wait" by (rule next_wait_pos)
  with 2(1) show ?case by (cases "wait = 0") auto
qed

declare wait_loop.simps [simp del]

definition WaitForStateContext ::
  "StateChangeConf \<Rightarrow> ('s \<Rightarrow> refresh_result \<times> 's) \<Rightarrow> 's \<Rightarrow> wait_result \<times> 's" where
  "WaitForStateContext conf refresh s = wait_loop conf refresh 0 0 [] s"

text \<open>
  \<^verbatim>\<open>retry.RetryContext(ctx, timeout, f)\<close> is a wait on the states
  \<^verbatim>\<open>retryableerror\<close> and \<^verbatim>\<open>success\<close> with a minimum sleep of 500 ms. It keeps
  the error of the last run of \<^verbatim>\<open>f\<close> and returns it when there is one, the wait's own
  error otherwise.
\<close>

datatype RetryError = RetryableError goerr | NonRetryableError goerr

definition retry_refresh ::
  "('s \<Rightarrow> RetryError option \<times> 's) \<Rightarrow> goerr option \<times> 's \<Rightarrow> refresh_result \<times> (goerr option \<times> 's)" where
  "retry_refresh f rs =
     (case f (snd rs) of
        (None, s') \<Rightarrow> (RefreshState ''success'', (None, s'))
      | (Some (RetryableError e), s') \<Rightarrow> (RefreshState ''retryableerror'', (Some e, s'))
      | (Some (NonRetryableError e), s') \<Rightarrow> (RefreshError e, (Some e, s')))"

definition RetryContext ::
  "nat \<Rightarrow> ('s \<Rightarrow> RetryError option \<times> 's) \<Rightarrow> 's \<Rightarrow> goerr option \<times> 's" where
  "RetryContext timeout f s =
     (case WaitForStateContext
             \<lparr>Pending = [''retryableerror''], Target = [''success''],
              Timeout = timeout, MinTimeout = 500\<rparr>
             (retry_refresh f) (None, s) of
        (w, (resultErr, s')) \<Rightarrow>
          (case resultErr of
             Some e \<Rightarrow> (Some e, s')
           | None \<Rightarrow> (case w of WaitError e \<Rightarrow> (Some e, s') | _ \<Rightarrow> (None, s'))))"

section \<open>GuardDuty threat intel set\<close>

text \<open>
  The calls the handler makes on the GuardDuty client, with their request fields in the
  order of the source: \<^verbatim>\<open>CreateThreatIntelSet\<close> (DetectorId, Name, Format, Location,
  Activate, Tags), \<^verbatim>\<open>GetThreatIntelSet\<close> and \<^verbatim>\<open>DeleteThreatIntelSet\<close> (DetectorId,
  ThreatIntelSetId), \<^verbatim>\<open>UpdateThreatIntelSet\<close> (DetectorId, ThreatIntelSetId, Name,
  Location, Activate; a field the handler leaves unset is \<open>None\<close>), and the provider's
  \<^verbatim>\<open>UpdateTags\<close> (identifier, old tags, new tags).
\<close>

datatype gd_call =
    CreateThreatIntelSet string string string string bool "tags option"
  | GetThreatIntelSet string string
  | UpdateThreatIntelSet string string "string option" "string option" "bool option"
  | DeleteThreatIntelSet string string
  | GuardDutyUpdateTags string tags tags

record GetThreatIntelSetOutput =
  gti_Format :: "string option"
  gti_Location :: "string option"
  gti_Name :: "string option"
  gti_Status :: "string option"
  gti_Tags :: tags

text \<open>
  The remote service: every operation answers from the calls made so far and its request,
  with an error (\<open>Inl\<close>) or its output. \<^verbatim>\<open>CreateThreatIntelSet\<close> answers the
  \<^verbatim>\<open>ThreatIntelSetId\<close> pointer of its output.
\<close>

record GuardDutyConn =
  CreateThreatIntelSetWithContext ::
    "gd_call list \<Rightarrow> string \<Rightarrow> string \<Rightarrow> string \<Rightarrow> string \<Rightarrow> bool \<Rightarrow> tags option \<Rightarrow> goerr + string option"
  GetThreatIntelSetWithContext ::
    "gd_call list \<Rightarrow> string \<Rightarrow> string \<Rightarrow> goerr + GetThreatIntelSetOutput"
  UpdateThreatIntelSetWithContext ::
    "gd_call list \<Rightarrow> string \<Rightarrow> string \<Rightarrow> string option \<Rightarrow> string option \<Rightarrow> bool option \<Rightarrow> goerr option"
  DeleteThreatIntelSetWithContext ::
    "gd_call list \<Rightarrow> string \<Rightarrow> string \<Rightarrow> goerr option"
  GuardDutyUpdateTagsOp ::
    "gd_call list \<Rightarrow> string \<Rightarrow> tags \<Rightarrow> tags \<Rightarrow> goerr option"

definition ThreatIntelSetStatusActivating :: string where
  "ThreatIntelSetStatusActivating = ''ACTIVATING''"

definition ThreatIntelSetStatusActive :: string where
  "ThreatIntelSetStatusActive = ''ACTIVE''"

definition ThreatIntelSetStatusDeactivating :: string where
  "ThreatIntelSetStatusDeactivating = ''DEACTIVATING''"

definition ThreatIntelSetStatusInactive :: string where
  "ThreatIntelSetStatusInactive = ''INACTIVE''"

definition ThreatIntelSetStatusDeletePending :: string where
  "ThreatIntelSetStatusDeletePending = ''DELETE_PENDING''"

definition ThreatIntelSetStatusDeleted :: string where
  "ThreatIntelSetStatusDeleted = ''DELETED''"

definition ErrCodeBadRequestException :: string where
  "ErrCodeBadRequestException = ''BadRequestException''"

definition threatintelsetRefreshStatusFunc ::
  "GuardDutyConn \<Rightarrow> string \<Rightarrow> string \<Rightarrow> gd_call list \<Rightarrow> refresh_result \<times> gd_call list" where
  "threatintelsetRefreshStatusFunc conn threatIntelSetID detectorID calls =
     (case GetThreatIntelSetWithContext conn calls detectorID threatIntelSetID of
        Inl err \<Rightarrow> (RefreshError err, calls @ [GetThreatIntelSet detectorID threatIntelSetID])
      | Inr resp \<Rightarrow>
          (case gti_Status resp of
             None \<Rightarrow> (RefreshPanic, calls @ [GetThreatIntelSet detectorID threatIntelSetID])
           | Some st \<Rightarrow> (RefreshState st, calls @ [GetThreatIntelSet detectorID threatIntelSetID])))"

definition resourceThreatIntelSetRead ::
  "AWSClient \<Rightarrow> GuardDutyConn \<Rightarrow> ResourceData \<Rightarrow> gd_call list \<Rightarrow> outcome \<times> ResourceData \<times> gd_call list" where
  "resourceThreatIntelSetRead meta conn d calls =
     (case DecodeThreatIntelSetID (Id d) of
        Inl err \<Rightarrow>
          (Returned (AppendErrorf [] (''reading GuardDuty Threat Intel Set ('' @ Id d @ ''): '') err), d, calls)
      | Inr (threatIntelSetId, detectorId) \<Rightarrow>
          (case GetThreatIntelSetWithContext conn calls detectorId threatIntelSetId of
             Inl err \<Rightarrow>
               if ErrMessageContains (Some err) ErrCodeBadRequestException
                    ''The request is rejected because the input detectorId is not owned by the current account.''
               then (Returned [], SetId d [], calls @ [GetThreatIntelSet detectorId threatIntelSetId])
               else (Returned (AppendErrorf [] (''reading GuardDuty Threat Intel Set ('' @ Id d @ ''): '') err),
                     d, calls @ [GetThreatIntelSet detectorId threatIntelSetId])
           | Inr resp \<Rightarrow>
               (let d1 = Set d ''arn'' (VStr (ARN_String (Partition meta) ''guardduty'' (Region meta) (AccountID meta)
                                          (''detector/'' @ detectorId @ ''/threatintelset/'' @ threatIntelSetId)));
                    d2 = Set d1 ''detector_id'' (VStr detectorId);
                    d3 = Set d2 ''format'' (VStr (StringValue (gti_Format resp)));
                    d4 = Set d3 ''location'' (VStr (StringValue (gti_Location resp)));
                    d5 = Set d4 ''name'' (VStr (StringValue (gti_Name resp)));
                    d6 = Set d5 ''activate'' (VBool (StringValue (gti_Status resp) = ThreatIntelSetStatusActive));
                    tgs = IgnoreConfig meta (IgnoreAWS meta (gti_Tags resp));
                    d7 = Set d6 ''tags'' (VTags (RemoveDefaultConfig (DefaultTagsConfig meta) tgs));
                    d8 = Set d7 ''tags_all'' (VTags tgs)
                in (Returned [], d8, calls @ [GetThreatIntelSet detectorId threatIntelSetId]))))"

definition threatintelset_create_conf :: StateChangeConf where
  "threatintelset_create_conf =
     \<lparr>Pending = [ThreatIntelSetStatusActivating, ThreatIntelSetStatusDeactivating],
      Target = [ThreatIntelSetStatusActive, ThreatIntelSetStatusInactive],
      Timeout = 5 * 60 * 1000,
      MinTimeout = 3 * 1000\<rparr>"

definition threatintelset_delete_conf :: StateChangeConf where
  "threatintelset_delete_conf =
     \<lparr>Pending = [ThreatIntelSetStatusActive, ThreatIntelSetStatusActivating,
                 ThreatIntelSetStatusInactive, ThreatIntelSetStatusDeactivating,
                 ThreatIntelSetStatusDeletePending],
      Target = [ThreatIntelSetStatusDeleted],
      Timeout = 5 * 60 * 1000,
      MinTimeout = 3 * 1000\<rparr>"

definition resourceThreatIntelSetCreate ::
  "AWSClient \<Rightarrow> GuardDutyConn \<Rightarrow> ResourceData \<Rightarrow> gd_call list \<Rightarrow> outcome \<times> ResourceData \<times> gd_call list" where
  "resourceThreatIntelSetCreate meta conn d calls =
     (let tgs = MergeTags (DefaultTagsConfig meta) (tags_of (Get d ''tags''));
          detectorID = str_of (Get d ''detector_id'');
          name = str_of (Get d ''name'');
          fmt = str_of (Get d ''format'');
          loc = str_of (Get d ''location'');
          act = bool_of (Get d ''activate'');
          input_tags = (if tgs \<noteq> Map.empty then Some (IgnoreAWS meta tgs) else None);
          calls1 = calls @ [CreateThreatIntelSet detectorID name fmt loc act input_tags]
      in case CreateThreatIntelSetWithContext conn calls detectorID name fmt loc act input_tags of
           Inl err \<Rightarrow>
             (Returned (AppendErrorf [] (''creating GuardDuty Threat Intel Set ('' @ name @ ''): '') err), d, calls1)
         | Inr None \<Rightarrow> (Panicked, d, calls1)
         | Inr (Some tid) \<Rightarrow>
             (case WaitForStateContext threatintelset_create_conf
                     (threatintelsetRefreshStatusFunc conn tid detectorID) calls1 of
                (WaitPanic, calls2) \<Rightarrow> (Panicked, d, calls2)
              | (WaitError err, calls2) \<Rightarrow>
                  (Returned (AppendErrorf []
                     (''creating GuardDuty Threat Intel Set ('' @ name @ ''): waiting for completion: '') err),
                   d, calls2)
              | (WaitDone, calls2) \<Rightarrow>
                  resourceThreatIntelSetRead meta conn (SetId d (detectorID @ '':'' @ tid)) calls2))"

definition resourceThreatIntelSetUpdate ::
  "AWSClient \<Rightarrow> GuardDutyConn \<Rightarrow> ResourceData \<Rightarrow> gd_call list \<Rightarrow> outcome \<times> ResourceData \<times> gd_call list" where
  "resourceThreatIntelSetUpdate meta conn d calls =
     (case DecodeThreatIntelSetID (Id d) of
        Inl err \<Rightarrow>
          (Returned (AppendErrorf [] (''updating GuardDuty Threat Intel Set ('' @ Id d @ ''): '') err), d, calls)
      | Inr (threatIntelSetID, detectorId) \<Rightarrow>
          (let upd =
                 (if HasChanges d [''activate'', ''location'', ''name'']
                  then (let nm = (if HasChange d ''name'' then Some (str_of (Get d ''name'')) else None);
                            loc = (if HasChange d ''location'' then Some (str_of (Get d ''location'')) else None);
                            act = (if HasChange d ''activate'' then Some (bool_of (Get d ''activate'')) else None)
                        in (UpdateThreatIntelSetWithContext conn calls detectorId threatIntelSetID nm loc act,
                            calls @ [UpdateThreatIntelSet detectorId threatIntelSetID nm loc act]))
                  else (None, calls))
           in case upd of
                (Some err, calls1) \<Rightarrow>
                  (Returned (AppendErrorf [] (''updating GuardDuty Threat Intel Set ('' @ Id d @ ''): '') err), d, calls1)
              | (None, calls1) \<Rightarrow>
                  (let tg =
                         (if HasChange d ''tags_all''
                          then (case GetChange d ''tags_all'' of
                                  (old, new) \<Rightarrow>
                                    (GuardDutyUpdateTagsOp conn calls1 (str_of (Get d ''arn'')) (tags_of old) (tags_of new),
                                     calls1 @ [GuardDutyUpdateTags (str_of (Get d ''arn'')) (tags_of old) (tags_of new)]))
                          else (None, calls1))
                   in case tg of
                        (Some err, calls2) \<Rightarrow>
                          (Returned (AppendErrorf []
                             (''updating GuardDuty Threat Intel Set ('' @ Id d @ ''): setting tags: '') err), d, calls2)
                      | (None, calls2) \<Rightarrow> resourceThreatIntelSetRead meta conn d calls2)))"

definition resourceThreatIntelSetDelete ::
  "AWSClient \<Rightarrow> GuardDutyConn \<Rightarrow> ResourceData \<Rightarrow> gd_call list \<Rightarrow> outcome \<times> ResourceData \<times> gd_call list" where
  "resourceThreatIntelSetDelete meta conn d calls =
     (case DecodeThreatIntelSetID (Id d) of
        Inl err \<Rightarrow>
          (Returned (AppendErrorf [] (''deleting GuardDuty Threat Intel Set ('' @ Id d @ ''): '') err), d, calls)
      | Inr (threatIntelSetID, detectorId) \<Rightarrow>
          (case DeleteThreatIntelSetWithContext conn calls detectorId threatIntelSetID of
             Some err \<Rightarrow>
               (Returned (AppendErrorf [] (''deleting GuardDuty Threat Intel Set ('' @ Id d @ ''): '') err),
                d, calls @ [DeleteThreatIntelSet detectorId threatIntelSetID])
           | None \<Rightarrow>
               (case WaitForStateContext threatintelset_delete_conf
                       (threatintelsetRefreshStatusFunc conn threatIntelSetID detectorId)
                       (calls @ [DeleteThreatIntelSet detectorId threatIntelSetID]) of
                  (WaitPanic, calls2) \<Rightarrow> (Panicked, d, calls2)
                | (WaitError err, calls2) \<Rightarrow>
                    (Returned (AppendErrorf []
                       (''waiting for GuardDuty ThreatIntelSet status to be '' @ [CHR 0x22] @ ThreatIntelSetStatusDeleted
                          @ [CHR 0x22] @ '': '') err),
                     d, calls2)
                | (WaitDone, calls2) \<Rightarrow> (Returned [], d, calls2))))"

section \<open>EMR studio\<close>

record CreateStudioInput =
  csi_AuthMode :: string
  csi_DefaultS3Location :: string
  csi_EngineSecurityGroupId :: string
  csi_Name :: string
  csi_ServiceRole :: string
  csi_SubnetIds :: "string set"
  csi_VpcId :: string
  csi_WorkspaceSecurityGroupId :: string
  csi_Description :: "string option"
  csi_IdpAuthUrl :: "string option"
  csi_IdpRelayStateParameterName :: "string option"
  csi_UserRole :: "string option"
  csi_Tags :: "tags option"

record UpdateStudioInput =
  usi_StudioId :: string
  usi_Description :: "string option"
  usi_Name :: "string option"
  usi_DefaultS3Location :: "string option"
  usi_SubnetIds :: "string set option"

record Studio =
  st_StudioArn :: "string option"
  st_AuthMode :: "string option"
  st_DefaultS3Location :: "string option"
  st_Description :: "string option"
  st_EngineSecurityGroupId :: "string option"
  st_IdpAuthUrl :: "string option"
  st_IdpRelayStateParameterName :: "string option"
  st_Name :: "string option"
  st_ServiceRole :: "string option"
  st_Url :: "string option"
  st_UserRole :: "string option"
  st_VpcId :: "string option"
  st_WorkspaceSecurityGroupId :: "string option"
  st_SubnetIds :: "string set"
  st_Tags :: tags

text \<open>
  The calls on the EMR client. \<^verbatim>\<open>FindStudioByID\<close> is the provider's finder (not among
  the sources): it describes the studio and answers it, or an error, a
  \<^verbatim>\<open>retry.NotFoundError\<close> when the studio is gone. \<^verbatim>\<open>CreateStudio\<close> answers the
  \<^verbatim>\<open>StudioId\<close> pointer of its output.
\<close>

datatype emr_call =
    CreateStudio CreateStudioInput
  | DescribeStudio string
  | UpdateStudio UpdateStudioInput
  | DeleteStudio string
  | EMRUpdateTags string tags tags

record EMRConn =
  CreateStudioWithContext :: "emr_call list \<Rightarrow> CreateStudioInput \<Rightarrow> goerr + string option"
  FindStudioByID :: "emr_call list \<Rightarrow> string \<Rightarrow> goerr + Studio"
  UpdateStudioWithContext :: "emr_call list \<Rightarrow> UpdateStudioInput \<Rightarrow> goerr option"
  DeleteStudioWithContext :: "emr_call list \<Rightarrow> string \<Rightarrow> goerr option"
  EMRUpdateTagsOp :: "emr_call list \<Rightarrow> string \<Rightarrow> tags \<Rightarrow> tags \<Rightarrow> goerr option"

definition ErrCodeInvalidRequestException :: string where
  "ErrCodeInvalidRequestException = ''InvalidRequestException''"


definition studio_schema_keys :: "string list" where
  "studio_schema_keys =
     [''arn'', ''auth_mode'', ''default_s3_location'', ''description'', ''engine_security_group_id'',
      ''idp_auth_url'', ''idp_relay_state_parameter_name'', ''name'', ''service_role'', ''subnet_ids'',
      ''tags'', ''tags_all'', ''user_role'', ''url'', ''vpc_id'', ''workspace_security_group_id'']"

definition resourceStudioRead ::
  "AWSClient \<Rightarrow> EMRConn \<Rightarrow> ResourceData \<Rightarrow> emr_call list \<Rightarrow> outcome \<times> ResourceData \<times> emr_call list" where
  "resourceStudioRead meta conn d calls =
     (let r = FindStudioByID conn calls (Id d);
          calls1 = calls @ [DescribeStudio (Id d)];
          err = (case r of Inl e \<Rightarrow> Some e | Inr x \<Rightarrow> None)
      in if \<not> IsNewResource d \<and> NotFound err then (Returned [], SetId d [], calls1)
         else (case r of
                 Inl e \<Rightarrow> (Returned (AppendErrorf [] (''reading EMR Studio ('' @ Id d @ ''): '') e), d, calls1)
               | Inr studio \<Rightarrow>
                   (let d1 = Set d ''arn'' (VStr (StringValue (st_StudioArn studio)));
                        d2 = Set d1 ''auth_mode'' (VStr (StringValue (st_AuthMode studio)));
                        d3 = Set d2 ''default_s3_location'' (VStr (StringValue (st_DefaultS3Location studio)));
                        d4 = Set d3 ''description'' (VStr (StringValue (st_Description studio)));
                        d5 = Set d4 ''engine_security_group_id'' (VStr (StringValue (st_EngineSecurityGroupId studio)));
                        d6 = Set d5 ''idp_auth_url'' (VStr (StringValue (st_IdpAuthUrl studio)));
                        d7 = Set d6 ''idp_relay_state_parameter_name''
                               (VStr (StringValue (st_IdpRelayStateParameterName studio)));
                        d8 = Set d7 ''name'' (VStr (StringValue (st_Name studio)));
                        d9 = Set d8 ''service_role'' (VStr (StringValue (st_ServiceRole studio)));
                        d10 = Set d9 ''url'' (VStr (StringValue (st_Url studio)));
                        d11 = Set d10 ''user_role'' (VStr (StringValue (st_UserRole studio)));
                        d12 = Set d11 ''vpc_id'' (VStr (StringValue (st_VpcId studio)));
                        d13 = Set d12 ''workspace_security_group_id''
                                (VStr (StringValue (st_WorkspaceSecurityGroupId studio)));
                        d14 = Set d13 ''subnet_ids'' (VSet (st_SubnetIds studio));
                        tgs = IgnoreConfig meta (IgnoreAWS meta (st_Tags studio));
                        d15 = Set d14 ''tags'' (VTags (RemoveDefaultConfig (DefaultTagsConfig meta) tgs));
                        d16 = Set d15 ''tags_all'' (VTags tgs)
                    in (Returned [], d16, calls1))))"

text \<open>
  The closure that \<^verbatim>\<open>resourceStudioCreate\<close> hands to \<^verbatim>\<open>retry.RetryContext\<close>. It
  assigns the variable \<^verbatim>\<open>result\<close> of the handler, which is part of the state here.
\<close>

definition studio_create_attempt ::
  "EMRConn \<Rightarrow> CreateStudioInput \<Rightarrow> string option option \<times> emr_call list
     \<Rightarrow> RetryError option \<times> (string option option \<times> emr_call list)" where
  "studio_create_attempt conn inp s =
     (case CreateStudioWithContext conn (snd s) inp of
        Inl err \<Rightarrow>
          (if ErrMessageContains (Some err) ErrCodeInvalidRequestException
                ''entity does not have permissions to assume role''
           then Some (RetryableError err)
           else if ErrMessageContains (Some err) ErrCodeInvalidRequestException
                ''Service role does not have permission to access''
           then Some (RetryableError err)
           else Some (NonRetryableError err),
           (None, snd s @ [CreateStudio inp]))
      | Inr out \<Rightarrow> (None, (Some out, snd s @ [CreateStudio inp])))"

definition opt_str :: "val \<times> bool \<Rightarrow> string option" where
  "opt_str vo = (if snd vo then Some (str_of (fst vo)) else None)"

definition studio_create_input :: "AWSClient \<Rightarrow> ResourceData \<Rightarrow> CreateStudioInput" where
  "studio_create_input meta d =
     (let tgs = MergeTags (DefaultTagsConfig meta) (tags_of (Get d ''tags''))
      in \<lparr>csi_AuthMode = str_of (Get d ''auth_mode''),
          csi_DefaultS3Location = str_of (Get d ''default_s3_location''),
          csi_EngineSecurityGroupId = str_of (Get d ''engine_security_group_id''),
          csi_Name = str_of (Get d ''name''),
          csi_ServiceRole = str_of (Get d ''service_role''),
          csi_SubnetIds = set_of (Get d ''subnet_ids''),
          csi_VpcId = str_of (Get d ''vpc_id''),
          csi_WorkspaceSecurityGroupId = str_of (Get d ''workspace_security_group_id''),
          csi_Description = opt_str (GetOk d ''description''),
          csi_IdpAuthUrl = opt_str (GetOk d ''idp_auth_url''),
          csi_IdpRelayStateParameterName = opt_str (GetOk d ''idp_relay_state_parameter_name''),
          csi_UserRole = opt_str (GetOk d ''user_role''),
          csi_Tags = (if tgs \<noteq> Map.empty then Some (IgnoreAWS meta tgs) else None)\<rparr>)"

text \<open>
  \<^verbatim>\<open>propagationTimeout\<close> is a constant of the package that is not among the sources: the
  first argument, in milliseconds.
\<close>

definition resourceStudioCreate ::
  "nat \<Rightarrow> AWSClient \<Rightarrow> EMRConn \<Rightarrow> ResourceData \<Rightarrow> emr_call list \<Rightarrow> outcome \<times> ResourceData \<times> emr_call list" where
  "resourceStudioCreate propagationTimeout meta conn d calls =
     (let inp = studio_create_input meta d
      in case RetryContext propagationTimeout (studio_create_attempt conn inp) (None, calls) of
           (err, (result, calls1)) \<Rightarrow>
             (case (if TimedOut err
                    then (case CreateStudioWithContext conn calls1 inp of
                            Inl e \<Rightarrow> (Some e, None, calls1 @ [CreateStudio inp])
                          | Inr out \<Rightarrow> (None, Some out, calls1 @ [CreateStudio inp]))
                    else (err, result, calls1)) of
                (Some e, result2, calls2) \<Rightarrow>
                  (Returned (AppendErrorf [] ''creating EMR Studio: '' e), d, calls2)
              | (None, None, calls2) \<Rightarrow> (Panicked, d, calls2)
              | (None, Some out, calls2) \<Rightarrow>
                  resourceStudioRead meta conn (SetId d (StringValue out)) calls2))"

text \<open>
  The update handler fills an \<^verbatim>\<open>UpdateStudioInput\<close> and goes on to the tags and the
  read; the input it filled is not used after the block that builds it.
\<close>

definition studio_update_input :: "ResourceData \<Rightarrow> UpdateStudioInput" where
  "studio_update_input d =
     \<lparr>usi_StudioId = Id d,
      usi_Description = (if HasChange d ''description'' then Some (str_of (Get d ''description'')) else None),
      usi_Name = (if HasChange d ''name'' then Some (str_of (Get d ''name'')) else None),
      usi_DefaultS3Location =
        (if HasChange d ''default_s3_location'' then Some (str_of (Get d ''default_s3_location'')) else None),
      usi_SubnetIds = (if HasChange d ''subnet_ids'' then Some (set_of (Get d ''subnet_ids'')) else None)\<rparr>"

definition resourceStudioUpdate ::
  "AWSClient \<Rightarrow> EMRConn \<Rightarrow> ResourceData \<Rightarrow> emr_call list \<Rightarrow> outcome \<times> ResourceData \<times> emr_call list" where
  "resourceStudioUpdate meta conn d calls =
     (let built = (if HasChangesExcept studio_schema_keys d [''tags'', ''tags_all'']
                   then Some (studio_update_input d) else None);
          tg = (if HasChange d ''tags_all''
                then (case GetChange d ''tags_all'' of
                        (old, new) \<Rightarrow>
                          (EMRUpdateTagsOp conn calls (Id d) (tags_of old) (tags_of new),
                           calls @ [EMRUpdateTags (Id d) (tags_of old) (tags_of new)]))
                else (None, calls))
      in case tg of
           (Some err, calls1) \<Rightarrow>
             (Returned (AppendErrorf [] (''updating EMR Studio ('' @ Id d @ '') tags: '') err), d, calls1)
         | (None, calls1) \<Rightarrow> resourceStudioRead meta conn d calls1)"


section \<open>SSM activation\<close>

text \<open>
  A \<^verbatim>\<open>time.Time\<close> is an instant, an integer here. \<^verbatim>\<open>time.Parse(time.RFC3339, s)\<close>
  and \<^verbatim>\<open>t.Format(time.RFC3339)\<close> belong to the Go library and are parameters, with
  the zero \<^verbatim>\<open>time.Time\<close> that a failed parse and \<^verbatim>\<open>aws.TimeValue(nil)\<close> give.
\<close>

type_synonym gotime = int

record TimeLib =
  ParseRFC3339 :: "string \<Rightarrow> gotime option"
  FormatRFC3339 :: "gotime \<Rightarrow> string"
  ZeroTime :: gotime

definition TimeValue :: "TimeLib \<Rightarrow> gotime option \<Rightarrow> gotime" where
  "TimeValue tlib p = (case p of None \<Rightarrow> ZeroTime tlib | Some t \<Rightarrow> t)"

record CreateActivationInput =
  cai_IamRole :: string
  cai_DefaultInstanceName :: "string option"
  cai_Description :: "string option"
  cai_ExpirationDate :: "gotime option"
  cai_RegistrationLimit :: "int option"
  cai_Tags :: "tags option"

record CreateActivationOutput =
  cao_ActivationId :: "string option"
  cao_ActivationCode :: "string option"

record Activation =
  act_DefaultInstanceName :: "string option"
  act_Description :: "string option"
  act_ExpirationDate :: "gotime option"
  act_Expired :: "bool option"
  act_IamRole :: "string option"
  act_RegistrationLimit :: "int option"
  act_RegistrationsCount :: "int option"
  act_Tags :: tags

text \<open>
  The calls on the SSM client. \<^verbatim>\<open>DescribeActivations\<close> is asked for the one
  identifier (filter \<^verbatim>\<open>ActivationIds\<close>, \<^verbatim>\<open>MaxResults\<close> 1) and answers its
  \<^verbatim>\<open>ActivationList\<close>.
\<close>

datatype ssm_call =
    CreateActivation CreateActivationInput
  | DescribeActivations string
  | DeleteActivation string

record SSMConn =
  CreateActivationWithContext :: "ssm_call list \<Rightarrow> CreateActivationInput \<Rightarrow> goerr + CreateActivationOutput"
  DescribeActivationsWithContext :: "ssm_call list \<Rightarrow> string \<Rightarrow> goerr + Activation list"
  DeleteActivationWithContext :: "ssm_call list \<Rightarrow> string \<Rightarrow> goerr option"

definition resourceActivationRead ::
  "TimeLib \<Rightarrow> AWSClient \<Rightarrow> SSMConn \<Rightarrow> ResourceData \<Rightarrow> ssm_call list \<Rightarrow> outcome \<times> ResourceData \<times> ssm_call list" where
  "resourceActivationRead tlib meta conn d calls =
     (case DescribeActivationsWithContext conn calls (Id d) of
        Inl err \<Rightarrow>
          (Returned (AppendErrorf [] ''reading SSM activation: '' err), d, calls @ [DescribeActivations (Id d)])
      | Inr activationList \<Rightarrow>
          if \<not> IsNewResource d \<and> length activationList = 0
          then (Returned [], SetId d [], calls @ [DescribeActivations (Id d)])
          else (case activationList of
                  [] \<Rightarrow> (Panicked, d, calls @ [DescribeActivations (Id d)])
                | activation # rest \<Rightarrow>
                    (let d1 = Set d ''name'' (VStr (StringValue (act_DefaultInstanceName activation)));
                         d2 = Set d1 ''description'' (VStr (StringValue (act_Description activation)));
                         d3 = Set d2 ''expiration_date''
                                (VStr (FormatRFC3339 tlib (TimeValue tlib (act_ExpirationDate activation))));
                         d4 = Set d3 ''expired'' (VBool (BoolValue (act_Expired activation)));
                         d5 = Set d4 ''iam_role'' (VStr (StringValue (act_IamRole activation)));
                         d6 = Set d5 ''registration_limit'' (VInt (Int64Value (act_RegistrationLimit activation)));
                         d7 = Set d6 ''registration_count'' (VInt (Int64Value (act_RegistrationsCount activation)));
                         tgs = IgnoreConfig meta (IgnoreAWS meta (act_Tags activation));
                         d8 = Set d7 ''tags'' (VTags (RemoveDefaultConfig (DefaultTagsConfig meta) tgs));
                         d9 = Set d8 ''tags_all'' (VTags tgs)
                     in (Returned [], d9, calls @ [DescribeActivations (Id d)]))))"

definition activation_create_input :: "TimeLib \<Rightarrow> AWSClient \<Rightarrow> ResourceData \<Rightarrow> CreateActivationInput" where
  "activation_create_input tlib meta d =
     (let tgs = MergeTags (DefaultTagsConfig meta) (tags_of (Get d ''tags''))
      in \<lparr>cai_IamRole = (if snd (GetOk d ''iam_role'') then str_of (Get d ''iam_role'')
                         else str_of (Get d ''name'')),
          cai_DefaultInstanceName = (if snd (GetOk d ''name'') then Some (str_of (Get d ''name'')) else None),
          cai_Description =
            (if snd (GetOk d ''description'') then Some (str_of (Get d ''description'')) else None),
          cai_ExpirationDate =
            (if snd (GetOk d ''expiration_date'')
             then Some (case ParseRFC3339 tlib (str_of (fst (GetOk d ''expiration_date''))) of
                          None \<Rightarrow> ZeroTime tlib
                        | Some t \<Rightarrow> t)
             else None),
          cai_RegistrationLimit =
            (if snd (GetOk d ''registration_limit'') then Some (int_of (Get d ''registration_limit'')) else None),
          cai_Tags = (if tgs \<noteq> Map.empty then Some (IgnoreAWS meta tgs) else None)\<rparr>)"

definition activation_create_attempt ::
  "SSMConn \<Rightarrow> CreateActivationInput \<Rightarrow> CreateActivationOutput option \<times> ssm_call list
     \<Rightarrow> RetryError option \<times> (CreateActivationOutput option \<times> ssm_call list)" where
  "activation_create_attempt conn inp s =
     (case CreateActivationWithContext conn (snd s) inp of
        Inl err \<Rightarrow>
          (if ErrMessageContains (Some err) ''ValidationException'' ''Not existing role''
           then Some (RetryableError err)
           else Some (NonRetryableError err),
           (None, snd s @ [CreateActivation inp]))
      | Inr out \<Rightarrow> (None, (Some out, snd s @ [CreateActivation inp])))"

definition resourceActivationCreate ::
  "nat \<Rightarrow> TimeLib \<Rightarrow> AWSClient \<Rightarrow> SSMConn \<Rightarrow> ResourceData \<Rightarrow> ssm_call list
     \<Rightarrow> outcome \<times> ResourceData \<times> ssm_call list" where
  "resourceActivationCreate propagationTimeout tlib meta conn d calls =
     (let inp = activation_create_input tlib meta d
      in case RetryContext propagationTimeout (activation_create_attempt conn inp) (None, calls) of
           (err, (resp, calls1)) \<Rightarrow>
             (case (if TimedOut err
                    then (case CreateActivationWithContext conn calls1 inp of
                            Inl e \<Rightarrow> (Some e, None, calls1 @ [CreateActivation inp])
                          | Inr out \<Rightarrow> (None, Some out, calls1 @ [CreateActivation inp]))
                    else (err, resp, calls1)) of
                (Some e, resp2, calls2) \<Rightarrow>
                  (Returned (AppendErrorf [] ''creating SSM activation: '' e), d, calls2)
              | (None, None, calls2) \<Rightarrow> (Panicked, d, calls2)
              | (None, Some out, calls2) \<Rightarrow>
                  (case cao_ActivationId out of
                     None \<Rightarrow> (Returned [ErrorDiag ''ActivationId was nil'' None], d, calls2)
                   | Some aid \<Rightarrow>
                       resourceActivationRead tlib meta conn
                         (Set (SetId d aid) ''activation_code'' (VStr (StringValue (cao_ActivationCode out))))
                         calls2)))"


section \<open>Example clients, remote services and states\<close>


definition example_client :: AWSClient where
  "example_client =
     \<lparr>DefaultTagsConfig = [''env'' \<mapsto> ''prod''], IgnoreAWS = (\<lambda>t. t), IgnoreConfig = (\<lambda>t. t),
      Partition = ''aws'', Region = ''us-east-1'', AccountID = ''123456789012''\<rparr>"

definition example_data :: "string \<Rightarrow> bool \<Rightarrow> ResourceData" where
  "example_data ident new =
     \<lparr>Id = ident, IsNewResource = new, attrs = (\<lambda>k. VStr []), prior = (\<lambda>k. VStr [])\<rparr>"

definition example_guardduty ::
  "(gd_call list \<Rightarrow> goerr + GetThreatIntelSetOutput) \<Rightarrow> goerr option \<Rightarrow> GuardDutyConn" where
  "example_guardduty get del =
     \<lparr>CreateThreatIntelSetWithContext = (\<lambda>calls d n f l a t. Inr (Some ''tis-1'')),
      GetThreatIntelSetWithContext = (\<lambda>calls d t. get calls),
      UpdateThreatIntelSetWithContext = (\<lambda>calls d t n l a. None),
      DeleteThreatIntelSetWithContext = (\<lambda>calls d t. del),
      GuardDutyUpdateTagsOp = (\<lambda>calls a old new. None)\<rparr>"

definition not_owned :: goerr where
  "not_owned = AwsErr ''BadRequestException''
     ''The request is rejected because the input detectorId is not owned by the current account.''"

definition malformed_id_error :: "string \<Rightarrow> goerr" where
  "malformed_id_error ident =
     Errorf (''GuardDuty ThreatIntelSet ID must be of the form <Detector ID>:<ThreatIntelSet ID>, was provided: '' @ ident)"

definition example_emr ::
  "(emr_call list \<Rightarrow> goerr + string option) \<Rightarrow> (emr_call list \<Rightarrow> goerr + Studio) \<Rightarrow> goerr option \<Rightarrow> EMRConn" where
  "example_emr create finder del =
     \<lparr>CreateStudioWithContext = (\<lambda>calls inp. create calls),
      FindStudioByID = (\<lambda>calls i. finder calls),
      UpdateStudioWithContext = (\<lambda>calls inp. None),
      DeleteStudioWithContext = (\<lambda>calls i. del),
      EMRUpdateTagsOp = (\<lambda>calls i old new. None)\<rparr>"

definition example_studio :: Studio where
  "example_studio =
     \<lparr>st_StudioArn = Some ''arn:aws:elasticmapreduce:us-east-1:123456789012:studio/es-1'',
      st_AuthMode = Some ''IAM'', st_DefaultS3Location = Some ''s3://bucket/studio'',
      st_Description = None, st_EngineSecurityGroupId = Some ''sg-1'', st_IdpAuthUrl = None,
      st_IdpRelayStateParameterName = None, st_Name = Some ''old'', st_ServiceRole = Some ''role'',
      st_Url = Some ''https://es-1.example'', st_UserRole = None, st_VpcId = Some ''vpc-1'',
      st_WorkspaceSecurityGroupId = Some ''sg-2'', st_SubnetIds = {''subnet-1''},
      st_Tags = [''env'' \<mapsto> ''prod'', ''team'' \<mapsto> ''data'']\<rparr>"



definition example_timelib :: TimeLib where
  "example_timelib =
     \<lparr>ParseRFC3339 = (\<lambda>s. if s = ''1970-01-02T00:00:00Z'' then Some 86400 else None),
      FormatRFC3339 = (\<lambda>t. if t = 86400 then ''1970-01-02T00:00:00Z'' else ''0001-01-01T00:00:00Z''),
      ZeroTime = - 62135596800\<rparr>"


text \<open>The studio whose name the configuration changes from \<open>old\<close> to \<open>new\<close>.\<close>

definition renamed_studio_data :: ResourceData where
  "renamed_studio_data =
     \<lparr>Id = ''es-1'', IsNewResource = False,
      attrs = (\<lambda>k. if k = ''name'' then VStr ''new'' else VStr []),
      prior = (\<lambda>k. if k = ''name'' then VStr ''old'' else VStr [])\<rparr>"

section \<open>Properties of the composite identifier\<close>

lemma Split_no_sep: "c \<notin> set s \<Longrightarrow> Split s c = [s]"
  by (induction s) (auto split: list.splits)

lemma Split_append: "c \<notin> set a \<Longrightarrow> Split (a @ c # b) c = a # Split b c"
  by (induction a) (auto split: list.splits)

lemma length_Split: "length (Split s c) = Suc (length (filter (\<lambda>x. x = c) s))"
  by (induction s) (auto split: list.splits)

text \<open>
  C10. For detector and threat intel set identifiers that hold no \<open>:\<close>, decoding the
  identifier \<open>detectorID:threatIntelSetID\<close> that the create handler forms succeeds and
  answers the threat intel set identifier first and the detector identifier second; when
  either holds a \<open>:\<close>, decoding the formed identifier fails with the error.
\<close>

theorem decode_composite_id:
  "DecodeThreatIntelSetID (detectorID @ '':'' @ threatIntelSetID) =
     (if CHR '':'' \<notin> set detectorID \<and> CHR '':'' \<notin> set threatIntelSetID
      then Inr (threatIntelSetID, detectorID)
      else Inl (Errorf (''GuardDuty ThreatIntelSet ID must be of the form <Detector ID>:<ThreatIntelSet ID>, was provided: ''
                  @ detectorID @ '':'' @ threatIntelSetID)))"
proof (cases "CHR '':'' \<notin> set detectorID \<and> CHR '':'' \<notin> set threatIntelSetID")
  case True
  then show ?thesis
    by (simp add: DecodeThreatIntelSetID_def Split_append Split_no_sep)
next
  case False
  then have "filter (\<lambda>x. x = CHR '':'') (detectorID @ threatIntelSetID) \<noteq> []"
    by (auto simp: filter_empty_conv)
  then have "length (Split (detectorID @ '':'' @ threatIntelSetID) (CHR '':'')) \<noteq> 2"
    by (cases "filter (\<lambda>x. x = CHR '':'') detectorID"; cases "filter (\<lambda>x. x = CHR '':'') threatIntelSetID")
       (auto simp add: length_Split)
  with False show ?thesis
    by (simp add: DecodeThreatIntelSetID_def Let_def)
qed

lemma Decode_malformed:
  "length (Split ident (CHR '':'')) \<noteq> 2 \<Longrightarrow> DecodeThreatIntelSetID ident = Inl (malformed_id_error ident)"
  by (simp add: DecodeThreatIntelSetID_def malformed_id_error_def Let_def)

text \<open>
  C5. When the split of the identifier on \<open>:\<close> does not give exactly two parts, the
  read, the update and the delete of the threat intel set each return the one error
  diagnostic that names the expected form \<open><Detector ID>:<ThreatIntelSet ID>\<close>, and
  leave the list of remote calls as it was: no remote call is made.
\<close>

theorem malformed_id_rejected_before_any_call:
  assumes "length (Split (Id d) (CHR '':'')) \<noteq> 2"
  shows "resourceThreatIntelSetRead meta conn d calls =
           (Returned [ErrorDiag (''reading GuardDuty Threat Intel Set ('' @ Id d @ ''): '')
                        (Some (malformed_id_error (Id d)))], d, calls)
       \<and> resourceThreatIntelSetUpdate meta conn d calls =
           (Returned [ErrorDiag (''updating GuardDuty Threat Intel Set ('' @ Id d @ ''): '')
                        (Some (malformed_id_error (Id d)))], d, calls)
       \<and> resourceThreatIntelSetDelete meta conn d calls =
           (Returned [ErrorDiag (''deleting GuardDuty Threat Intel Set ('' @ Id d @ ''): '')
                        (Some (malformed_id_error (Id d)))], d, calls)"
  using Decode_malformed [OF assms]
  by (simp add: resourceThreatIntelSetRead_def resourceThreatIntelSetUpdate_def
        resourceThreatIntelSetDelete_def AppendErrorf_def)

theorem malformed_id_rejected_witness:
  "length (Split (Id (example_data ''a:b:c'' False)) (CHR '':'')) \<noteq> 2
   \<and> resourceThreatIntelSetRead example_client (example_guardduty (\<lambda>calls. Inl not_owned) None)
        (example_data ''a:b:c'' False) [] =
        (Returned [ErrorDiag ''reading GuardDuty Threat Intel Set (a:b:c): ''
                     (Some (malformed_id_error ''a:b:c''))], example_data ''a:b:c'' False, [])
   \<and> resourceThreatIntelSetDelete example_client (example_guardduty (\<lambda>calls. Inl not_owned) None)
        (example_data ''a:b:c'' False) [] =
        (Returned [ErrorDiag ''deleting GuardDuty Threat Intel Set (a:b:c): ''
                     (Some (malformed_id_error ''a:b:c''))], example_data ''a:b:c'' False, [])"
proof -
  have h: "length (Split (Id (example_data ''a:b:c'' False)) (CHR '':'')) \<noteq> 2"
    by (simp add: example_data_def)
  show ?thesis
    using h malformed_id_rejected_before_any_call [OF h, of example_client
        "example_guardduty (\<lambda>calls. Inl not_owned) None" "[]"]
    by (simp add: example_data_def)
qed

section \<open>The studio update\<close>

text \<open>
  C1. The claim has the update handler of the studio issue the remote update call when a
  field other than the tags changed. Run on a studio whose name changed from \<open>old\<close> to
  \<open>new\<close> (so \<^verbatim>\<open>HasChangesExcept("tags", "tags_all")\<close> holds), against a remote
  service that accepts every call, the handler returns without a diagnostic; the only call
  it made is the describe call of the final read, there is no \<^verbatim>\<open>UpdateStudio\<close>
  call, and the state holds the remote name \<open>old\<close> again.
\<close>

theorem studio_update_makes_no_update_call:
  "HasChangesExcept studio_schema_keys renamed_studio_data [''tags'', ''tags_all'']
   \<and> fst (resourceStudioUpdate example_client
            (example_emr (\<lambda>calls. Inr (Some ''es-1'')) (\<lambda>calls. Inr example_studio) None)
            renamed_studio_data []) = Returned []
   \<and> snd (snd (resourceStudioUpdate example_client
            (example_emr (\<lambda>calls. Inr (Some ''es-1'')) (\<lambda>calls. Inr example_studio) None)
            renamed_studio_data [])) = [DescribeStudio ''es-1'']
   \<and> str_of (Get (fst (snd (resourceStudioUpdate example_client
            (example_emr (\<lambda>calls. Inr (Some ''es-1'')) (\<lambda>calls. Inr example_studio) None)
            renamed_studio_data []))) ''name'') = ''old''"
  by (simp add: resourceStudioUpdate_def resourceStudioRead_def HasChangesExcept_def HasChange_def
        studio_schema_keys_def renamed_studio_data_def example_emr_def example_studio_def
        example_client_def Let_def GetChange_def Set_def Get_def SetId_def StringValue_def
        )

section \<open>Polling after a delete\<close>













end
